theory Spec2Isabelle
  imports Main "HOL-Library.AList"
begin

section \<open>Strings\<close>

text \<open>
  Python strings are sequences of code points. The model keeps the code points below 256,
  one \<^typ>\<open>char\<close> each; on that range \<open>str.isspace\<close>, \<open>str.lower\<close> and the
  regular expression class of decimal digits are the finite tables below.
\<close>

definition py_isspace :: "char \<Rightarrow> bool" where
  "py_isspace c = ((of_char c :: nat) \<in> {9, 10, 11, 12, 13, 28, 29, 30, 31, 32, 133, 160})"

definition strip :: "string \<Rightarrow> string" where
  "strip s = rev (dropWhile py_isspace (rev (dropWhile py_isspace s)))"

definition lower_char :: "char \<Rightarrow> char" where
  "lower_char c =
     (let n = (of_char c :: nat)
      in if (65 \<le> n \<and> n \<le> 90) \<or> (192 \<le> n \<and> n \<le> 222 \<and> n \<noteq> 215)
         then char_of (n + 32) else c)"

definition lower :: "string \<Rightarrow> string" where
  "lower s = map lower_char s"

definition starts_with :: "string \<Rightarrow> string \<Rightarrow> bool" where
  "starts_with p s = (take (length p) s = p)"

text \<open>The operator \<open>sub in s\<close> on strings: \<open>sub\<close> occurs in \<open>s\<close> as a contiguous run.\<close>

fun str_in :: "string \<Rightarrow> string \<Rightarrow> bool" where
  "str_in sub [] = (sub = [])"
| "str_in sub (c # cs) = (starts_with sub (c # cs) \<or> str_in sub cs)"

section \<open>The parsed document\<close>

text \<open>
  \<open>BeautifulSoup(html_content, 'html.parser')\<close> is library code; the functions of the
  scraper only walk the tree it returns. The model starts from that tree: a node is a
  text string (what \<open>.text\<close> collects), another kind of string (a comment, a declaration:
  \<open>.text\<close> leaves it out) or a tag with its attribute dictionary and its children. The
  soup object is the root tag of the tree.
\<close>

datatype node =
    Text string
  | Other string
  | Element (tag_name: string) (tag_attrs: "(string \<times> string) list") (contents: "node list")

fun descendants :: "node \<Rightarrow> node list" where
  "descendants (Element t a cs) = concat (map (\<lambda>c. c # descendants c) cs)"
| "descendants (Text s) = []"
| "descendants (Other s) = []"

fun is_tag :: "string \<Rightarrow> node \<Rightarrow> bool" where
  "is_tag nm (Element t a cs) = (t = nm)"
| "is_tag nm (Text s) = False"
| "is_tag nm (Other s) = False"

text \<open>\<open>tag.find_all(nm)\<close>: every tag of that name below \<open>tag\<close>, in document order.\<close>

definition bs_find_all :: "string \<Rightarrow> node \<Rightarrow> node list" where
  "bs_find_all nm n = filter (is_tag nm) (descendants n)"

text \<open>\<open>tag.find(nm)\<close>: the first of them, or \<open>None\<close>.\<close>

definition bs_find :: "string \<Rightarrow> node \<Rightarrow> node option" where
  "bs_find nm n = (case bs_find_all nm n of [] \<Rightarrow> None | x # xs \<Rightarrow> Some x)"

fun attr_lookup :: "node \<Rightarrow> string \<Rightarrow> string option" where
  "attr_lookup (Element t a cs) k = map_of a k"
| "attr_lookup (Text s) k = None"
| "attr_lookup (Other s) k = None"

text \<open>\<open>tag.find(nm, {k: v})\<close>: the first tag of that name whose attribute \<open>k\<close> is \<open>v\<close>.\<close>

definition bs_find_attr :: "string \<Rightarrow> string \<Rightarrow> string \<Rightarrow> node \<Rightarrow> node option" where
  "bs_find_attr nm k v n =
     (case filter (\<lambda>d. attr_lookup d k = Some v) (bs_find_all nm n) of
        [] \<Rightarrow> None | x # xs \<Rightarrow> Some x)"

text \<open>\<open>tag.get(k, default)\<close>.\<close>

definition attr_get :: "node \<Rightarrow> string \<Rightarrow> string \<Rightarrow> string" where
  "attr_get n k dflt = (case attr_lookup n k of None \<Rightarrow> dflt | Some v \<Rightarrow> v)"

text \<open>\<open>tag.text\<close>: the text strings below the tag, concatenated.\<close>

fun get_text :: "node \<Rightarrow> string" where
  "get_text (Text s) = s"
| "get_text (Other s) = []"
| "get_text (Element t a cs) = concat (map get_text cs)"

section \<open>Location entries\<close>

record location =
  code :: string
  name :: string

text \<open>
  The loop over option tags that \<open>fetch_states\<close>, \<open>fetch_districts\<close>,
  \<open>fetch_court_complexes\<close> and \<open>fetch_courts\<close> each write out: the list built so far is
  the accumulator, \<open>append\<close> adds at its end.
\<close>

fun option_loop :: "node list \<Rightarrow> location list \<Rightarrow> location list" where
  "option_loop [] acc = acc"
| "option_loop (opt # rest) acc =
     (let val = strip (attr_get opt ''value'' '''');
          txt = strip (get_text opt)
      in if val \<noteq> [] \<and> val \<noteq> ''0''
         then option_loop rest (acc @ [\<lparr>code = val, name = txt\<rparr>])
         else option_loop rest acc)"

definition get_default_states :: "location list" where
  "get_default_states =
     [\<lparr>code = ''1'', name = ''Delhi''\<rparr>,
      \<lparr>code = ''2'', name = ''Maharashtra''\<rparr>,
      \<lparr>code = ''3'', name = ''Karnataka''\<rparr>,
      \<lparr>code = ''4'', name = ''Tamil Nadu''\<rparr>,
      \<lparr>code = ''5'', name = ''Gujarat''\<rparr>,
      \<lparr>code = ''6'', name = ''Rajasthan''\<rparr>,
      \<lparr>code = ''7'', name = ''West Bengal''\<rparr>,
      \<lparr>code = ''8'', name = ''Uttar Pradesh''\<rparr>,
      \<lparr>code = ''9'', name = ''Madhya Pradesh''\<rparr>,
      \<lparr>code = ''10'', name = ''Punjab''\<rparr>]"

section \<open>Dates\<close>

text \<open>
  \<open>datetime.date\<close> and the two library operations the scraper uses on it: the parse
  \<open>datetime.strptime(value, "%d-%m-%Y").date()\<close>, which raises \<open>ValueError\<close> (here
  \<open>None\<close>), and \<open>today + timedelta(days=1)\<close>, which raises \<open>OverflowError\<close> (here
  \<open>None\<close>) past the last day of year 9999.
\<close>

record py_date =
  year :: nat
  month :: nat
  day :: nat

record datetime =
  dt_date :: py_date
  hour :: nat
  minute :: nat
  second :: nat
  microsecond :: nat

definition is_leap :: "nat \<Rightarrow> bool" where
  "is_leap y = (y mod 4 = 0 \<and> (y mod 100 \<noteq> 0 \<or> y mod 400 = 0))"

definition days_in_month :: "nat \<Rightarrow> nat \<Rightarrow> nat" where
  "days_in_month y m =
     (if m = 2 then (if is_leap y then 29 else 28)
      else if m = 4 \<or> m = 6 \<or> m = 9 \<or> m = 11 then 30 else 31)"

definition make_date :: "nat \<Rightarrow> nat \<Rightarrow> nat \<Rightarrow> py_date option" where
  "make_date y m d =
     (if 1 \<le> y \<and> y \<le> 9999 \<and> 1 \<le> m \<and> m \<le> 12 \<and> 1 \<le> d \<and> d \<le> days_in_month y m
      then Some \<lparr>year = y, month = m, day = d\<rparr> else None)"

definition add_one_day :: "py_date \<Rightarrow> py_date option" where
  "add_one_day d =
     (if day d < days_in_month (year d) (month d) then Some (d\<lparr>day := day d + 1\<rparr>)
      else if month d < 12 then Some \<lparr>year = year d, month = month d + 1, day = 1\<rparr>
      else if year d < 9999 then Some \<lparr>year = year d + 1, month = 1, day = 1\<rparr>
      else None)"

definition is_digit :: "char \<Rightarrow> bool" where
  "is_digit c = (c \<in> set ''0123456789'')"

definition digit_val :: "char \<Rightarrow> nat" where
  "digit_val c = of_char c - 48"

text \<open>
  \<open>strptime\<close> turns the format into the regular expression
  \<^verbatim>\<open>(?P<d>3[0-1]|[1-2]\d|0[1-9]|[1-9]| [1-9])-(?P<m>1[0-2]|0[1-9]|[1-9])-(?P<Y>\d\d\d\d)\<close>,
  matches it at the start of the string and refuses a match that does not reach the end.
  Each group is modelled as the list of its matches, in the order a backtracking matcher
  tries the alternatives: the number read and the rest of the string.
\<close>

definition re_d :: "string \<Rightarrow> (nat \<times> string) list" where
  "re_d s =
     (case s of
        c1 # c2 # r \<Rightarrow>
          (if c1 = CHR ''3'' \<and> c2 \<in> set ''01'' then [(30 + digit_val c2, r)] else []) @
          (if c1 \<in> set ''12'' \<and> is_digit c2 then [(10 * digit_val c1 + digit_val c2, r)] else []) @
          (if c1 = CHR ''0'' \<and> c2 \<in> set ''123456789'' then [(digit_val c2, r)] else [])
      | _ \<Rightarrow> []) @
     (case s of
        c1 # r \<Rightarrow> (if c1 \<in> set ''123456789'' then [(digit_val c1, r)] else [])
      | [] \<Rightarrow> []) @
     (case s of
        c1 # c2 # r \<Rightarrow>
          (if c1 = CHR '' '' \<and> c2 \<in> set ''123456789'' then [(digit_val c2, r)] else [])
      | _ \<Rightarrow> [])"

definition re_m :: "string \<Rightarrow> (nat \<times> string) list" where
  "re_m s =
     (case s of
        c1 # c2 # r \<Rightarrow>
          (if c1 = CHR ''1'' \<and> c2 \<in> set ''012'' then [(10 + digit_val c2, r)] else []) @
          (if c1 = CHR ''0'' \<and> c2 \<in> set ''123456789'' then [(digit_val c2, r)] else [])
      | _ \<Rightarrow> []) @
     (case s of
        c1 # r \<Rightarrow> (if c1 \<in> set ''123456789'' then [(digit_val c1, r)] else [])
      | [] \<Rightarrow> [])"

definition re_Y :: "string \<Rightarrow> (nat \<times> string) list" where
  "re_Y s =
     (case s of
        c1 # c2 # c3 # c4 # r \<Rightarrow>
          (if is_digit c1 \<and> is_digit c2 \<and> is_digit c3 \<and> is_digit c4
           then [(1000 * digit_val c1 + 100 * digit_val c2 + 10 * digit_val c3 + digit_val c4, r)]
           else [])
      | _ \<Rightarrow> [])"

definition re_lit :: "char \<Rightarrow> string \<Rightarrow> string list" where
  "re_lit c s = (case s of x # r \<Rightarrow> (if x = c then [r] else []) | [] \<Rightarrow> [])"

definition re_dmy :: "string \<Rightarrow> (nat \<times> nat \<times> nat \<times> string) list" where
  "re_dmy s =
     List.bind (re_d s) (\<lambda>(d, r1).
     List.bind (re_lit CHR ''-'' r1) (\<lambda>r2.
     List.bind (re_m r2) (\<lambda>(m, r3).
     List.bind (re_lit CHR ''-'' r3) (\<lambda>r4.
     List.bind (re_Y r4) (\<lambda>(y, r5). [(d, m, y, r5)])))))"

definition strptime_dmy :: "string \<Rightarrow> py_date option" where
  "strptime_dmy s =
     (case re_dmy s of
        [] \<Rightarrow> None
      | (d, m, y, r) # others \<Rightarrow> (if r \<noteq> [] then None else make_date y m d))"

text \<open>\<open>datetime.isoformat()\<close> of a naive datetime.\<close>

fun pad :: "nat \<Rightarrow> nat \<Rightarrow> string" where
  "pad 0 n = []"
| "pad (Suc w) n = pad w (n div 10) @ [char_of (48 + n mod 10)]"

definition isoformat :: "datetime \<Rightarrow> string" where
  "isoformat t =
     pad 4 (year (dt_date t)) @ ''-'' @ pad 2 (month (dt_date t)) @ ''-'' @ pad 2 (day (dt_date t)) @
     ''T'' @ pad 2 (hour t) @ '':'' @ pad 2 (minute t) @ '':'' @ pad 2 (second t) @
     (if microsecond t = 0 then [] else ''.'' @ pad 6 (microsecond t))"

section \<open>Exceptions, transport and operating system\<close>

datatype py_exception =
    ConnectError string
  | TimeoutException string
  | OverflowError string
  | FileExistsError string
  | FileNotFoundError string
  | IsADirectoryError string
  | OSError string
  | ValueError string

fun str_of :: "py_exception \<Rightarrow> string" where
  "str_of (ConnectError m) = m"
| "str_of (TimeoutException m) = m"
| "str_of (OverflowError m) = m"
| "str_of (FileExistsError m) = m"
| "str_of (FileNotFoundError m) = m"
| "str_of (IsADirectoryError m) = m"
| "str_of (OSError m) = m"
| "str_of (ValueError m) = m"

text \<open>
  What the scraper reads of an \<open>httpx\<close> response: the status code, the \<open>content-type\<close>
  header, the document \<open>BeautifulSoup\<close> builds from \<open>response.text\<close>, and the bytes of
  \<open>response.content\<close>.
\<close>

record response =
  status_code :: nat
  content_type :: "string option"
  soup :: node
  content :: string

text \<open>
  The session of \<open>_get_session\<close>: \<open>get\<close> and \<open>post\<close> either raise or return a response.
  The two are parameters of every public operation.
\<close>

record session =
  http_get :: "string \<Rightarrow> py_exception + response"
  http_post :: "string \<Rightarrow> (string \<times> string) list \<Rightarrow> py_exception + response"

definition base_url :: string where
  "base_url = ''https://services.ecourts.gov.in/ecourtindia_v6''"

text \<open>The truth value of an \<open>Optional[str]\<close>: \<open>None\<close> and the empty string are false.\<close>

fun truthy :: "string option \<Rightarrow> bool" where
  "truthy None = False"
| "truthy (Some s) = (s \<noteq> [])"

text \<open>
  The operating system as \<open>download_cause_list_pdf\<close> calls it:
  \<open>os.makedirs(p, exist_ok=True)\<close>, and the \<open>with open(path, 'wb')\<close> block that writes
  the whole file. Each call returns the exception it raises, if any, and the file system
  it leaves. What the two calls do is a parameter of the operation, as the session is.
\<close>

record 'fs os_ops =
  os_makedirs :: "'fs \<Rightarrow> string \<Rightarrow> py_exception option \<times> 'fs"
  os_write :: "'fs \<Rightarrow> string \<Rightarrow> string \<Rightarrow> py_exception option \<times> 'fs"

section \<open>The case result interpreter\<close>

record case_result =
  case_id :: string
  found :: bool
  listed_today :: bool
  listed_tomorrow :: bool
  serial_number :: "string option"
  court_name :: "string option"
  next_hearing_date :: "string option"
  case_status :: "string option"
  details :: "(string \<times> string) list"

text \<open>
  The \<open>try\<close> block of \<open>_parse_case_result\<close>: a value that does not parse leaves the
  result as it is (the bare \<open>except\<close>).
\<close>

definition classify_date :: "py_date \<Rightarrow> py_date \<Rightarrow> string \<Rightarrow> case_result \<Rightarrow> case_result" where
  "classify_date today tomorrow val r =
     (case strptime_dmy val of
        None \<Rightarrow> r
      | Some hearing_date \<Rightarrow>
          (if hearing_date = today then r\<lparr>listed_today := True, found := True\<rparr>
           else if hearing_date = tomorrow then r\<lparr>listed_tomorrow := True, found := True\<rparr>
           else r))"

definition is_hearing_label :: "string \<Rightarrow> bool" where
  "is_hearing_label label = (str_in ''hearing date'' label \<or> str_in ''next date'' label)"

text \<open>The body of the loop over the rows.\<close>

definition case_row :: "py_date \<Rightarrow> py_date \<Rightarrow> node \<Rightarrow> case_result \<Rightarrow> case_result" where
  "case_row today tomorrow row r =
     (let cells = bs_find_all ''td'' row
      in if 2 \<le> length cells then
           (let label = lower (strip (get_text (cells ! 0)));
                val = strip (get_text (cells ! 1));
                r1 = r\<lparr>details := AList.update label val (details r)\<rparr>;
                r2 = (if is_hearing_label label
                      then classify_date today tomorrow val (r1\<lparr>next_hearing_date := Some val\<rparr>)
                      else r1);
                r3 = (if str_in ''court'' label then r2\<lparr>court_name := Some val\<rparr> else r2);
                r4 = (if str_in ''serial'' label \<or> str_in ''sr.'' label
                      then r3\<lparr>serial_number := Some val\<rparr> else r3)
            in (if str_in ''status'' label then r4\<lparr>case_status := Some val\<rparr> else r4))
         else r)"

fun case_rows :: "py_date \<Rightarrow> py_date \<Rightarrow> node list \<Rightarrow> case_result \<Rightarrow> case_result" where
  "case_rows today tomorrow [] r = r"
| "case_rows today tomorrow (row # rows) r =
     case_rows today tomorrow rows (case_row today tomorrow row r)"

definition initial_result :: "string \<Rightarrow> case_result" where
  "initial_result cid =
     \<lparr>case_id = cid, found = False, listed_today = False, listed_tomorrow = False,
      serial_number = None, court_name = None, next_hearing_date = None,
      case_status = None, details = []\<rparr>"

text \<open>
  \<open>_parse_case_result(html_content, case_id)\<close>. The first argument is what
  \<open>datetime.now()\<close> returns when the function runs: the source reads the clock itself, it
  has no parameter for the date.
\<close>

definition parse_case_result :: "datetime \<Rightarrow> node \<Rightarrow> string \<Rightarrow> py_exception + case_result" where
  "parse_case_result now doc cid =
     (let today = dt_date now
      in case add_one_day today of
           None \<Rightarrow> Inl (OverflowError ''date value out of range'')
         | Some tomorrow \<Rightarrow>
             Inr (case_rows today tomorrow (bs_find_all ''tr'' doc) (initial_result cid)))"

text \<open>
  The dictionary the two searches return: the parsed result with the keys
  \<open>search_type\<close> and \<open>cnr\<close>, or \<open>search_type\<close> and \<open>case_details\<close>, added.
\<close>

datatype search_kind = CNR | DETAILS

record case_details =
  case_type :: string
  case_number :: string
  case_year :: string

record search_result = case_result +
  search_type :: search_kind
  cnr :: "string option"
  case_details :: "case_details option"

definition with_search ::
  "case_result \<Rightarrow> search_kind \<Rightarrow> string option \<Rightarrow> case_details option \<Rightarrow> search_result" where
  "with_search r k c d =
     \<lparr>case_id = case_id r, found = found r, listed_today = listed_today r,
      listed_tomorrow = listed_tomorrow r, serial_number = serial_number r,
      court_name = court_name r, next_hearing_date = next_hearing_date r,
      case_status = case_status r, details = details r,
      search_type = k, cnr = c, case_details = d\<rparr>"

section \<open>The cause list interpreter\<close>

record cause_entry =
  serial_number :: string
  case_number :: string
  parties :: string
  advocate :: string
  purpose :: string

record cause_metadata =
  state_code :: string
  district_code :: string
  court_complex_code :: string
  court_code :: "string option"
  date :: string
  fetched_at :: string

text \<open>
  The dictionary a cause list is: \<open>_parse_cause_list\<close> sets \<open>total_cases\<close> and \<open>cases\<close>,
  \<open>fetch_cause_list\<close> adds \<open>metadata\<close>, and its error path returns \<open>error\<close> and
  \<open>cases\<close> only. A key the dictionary does not have is \<open>None\<close>.
\<close>

record cause_list =
  total_cases :: "nat option"
  cases :: "cause_entry list"
  metadata :: "cause_metadata option"
  error :: "string option"

definition make_case :: "node list \<Rightarrow> cause_entry" where
  "make_case cells =
     \<lparr>serial_number = strip (get_text (cells ! 0)),
      case_number = strip (get_text (cells ! 1)),
      parties = strip (get_text (cells ! 2)),
      advocate = (if 3 < length cells then strip (get_text (cells ! 3)) else []),
      purpose = (if 4 < length cells then strip (get_text (cells ! 4)) else [])\<rparr>"

fun cause_rows :: "node list \<Rightarrow> cause_entry list \<Rightarrow> cause_entry list" where
  "cause_rows [] acc = acc"
| "cause_rows (row # rows) acc =
     (let cells = bs_find_all ''td'' row
      in if 4 \<le> length cells then cause_rows rows (acc @ [make_case cells])
         else cause_rows rows acc)"

definition parse_cause_list :: "node \<Rightarrow> cause_list" where
  "parse_cause_list doc =
     (let cs = (case bs_find ''table'' doc of
                  None \<Rightarrow> []
                | Some table \<Rightarrow> cause_rows (drop 1 (bs_find_all ''tr'' table)) [])
      in \<lparr>total_cases = Some (length cs), cases = cs, metadata = None, error = None\<rparr>)"

section \<open>The public operations\<close>

text \<open>
  Each operation is one request and the interpretation of its response, inside
  \<open>try\<close>/\<open>except Exception\<close>. The diagnostic \<open>print\<close> of the handler is left out.
\<close>

definition opt_field :: "string \<Rightarrow> string option \<Rightarrow> (string \<times> string) list" where
  "opt_field k v = (case v of None \<Rightarrow> [] | Some s \<Rightarrow> (if truthy v then [(k, s)] else []))"

definition or_else :: "'a option \<Rightarrow> 'a option \<Rightarrow> 'a option" where
  "or_else a b = (case a of Some x \<Rightarrow> Some x | None \<Rightarrow> b)"

definition state_select :: "node \<Rightarrow> node option" where
  "state_select doc =
     or_else (bs_find_attr ''select'' ''id'' ''state_code'' doc)
             (bs_find_attr ''select'' ''name'' ''state_code'' doc)"

definition fetch_states :: "session \<Rightarrow> location list" where
  "fetch_states sess =
     (case http_get sess (base_url @ ''/?p=cause_list/'') of
        Inl e \<Rightarrow> get_default_states
      | Inr resp \<Rightarrow>
          (let states = (case state_select (soup resp) of
                           None \<Rightarrow> []
                         | Some sel \<Rightarrow> option_loop (bs_find_all ''option'' sel) [])
           in if states = [] then get_default_states else states))"

definition fetch_districts :: "session \<Rightarrow> string \<Rightarrow> location list" where
  "fetch_districts sess st =
     (case http_post sess (base_url @ ''/ajax/get_district.php'') [(''state_code'', st)] of
        Inl e \<Rightarrow> []
      | Inr resp \<Rightarrow> option_loop (bs_find_all ''option'' (soup resp)) [])"

definition fetch_court_complexes :: "session \<Rightarrow> string \<Rightarrow> string \<Rightarrow> location list" where
  "fetch_court_complexes sess st dist =
     (case http_post sess (base_url @ ''/ajax/get_court_complex.php'')
             [(''state_code'', st), (''dist_code'', dist)] of
        Inl e \<Rightarrow> []
      | Inr resp \<Rightarrow> option_loop (bs_find_all ''option'' (soup resp)) [])"

definition fetch_courts :: "session \<Rightarrow> string \<Rightarrow> string \<Rightarrow> string \<Rightarrow> location list" where
  "fetch_courts sess st dist cplx =
     (case http_post sess (base_url @ ''/ajax/get_court.php'')
             [(''state_code'', st), (''dist_code'', dist), (''court_complex_code'', cplx)] of
        Inl e \<Rightarrow> []
      | Inr resp \<Rightarrow> option_loop (bs_find_all ''option'' (soup resp)) [])"

definition search_case_by_cnr ::
  "session \<Rightarrow> datetime \<Rightarrow> string \<Rightarrow> string option \<Rightarrow> string option \<Rightarrow> search_result option" where
  "search_case_by_cnr sess now cnr_no st dist =
     (case http_post sess (base_url @ ''/ajax/search_case_cnr.php'')
             ([(''cnr'', cnr_no)] @ opt_field ''state_code'' st @ opt_field ''dist_code'' dist) of
        Inl e \<Rightarrow> None
      | Inr resp \<Rightarrow>
          (case parse_case_result now (soup resp) cnr_no of
             Inl e \<Rightarrow> None
           | Inr r \<Rightarrow> Some (with_search r CNR (Some cnr_no) None)))"

definition search_case_by_details ::
  "session \<Rightarrow> datetime \<Rightarrow> string \<Rightarrow> string \<Rightarrow> string \<Rightarrow> string \<Rightarrow> string \<Rightarrow> string
     \<Rightarrow> search_result option" where
  "search_case_by_details sess now st dist court ctype cno cyear =
     (case http_post sess (base_url @ ''/ajax/search_case_details.php'')
             [(''state_code'', st), (''dist_code'', dist), (''court_code'', court),
              (''case_type'', ctype), (''case_no'', cno), (''case_year'', cyear)] of
        Inl e \<Rightarrow> None
      | Inr resp \<Rightarrow>
          (case parse_case_result now (soup resp) (ctype @ ''/'' @ cno @ ''/'' @ cyear) of
             Inl e \<Rightarrow> None
           | Inr r \<Rightarrow>
               Some (with_search r DETAILS None
                       (Some \<lparr>case_type = ctype, case_number = cno, case_year = cyear\<rparr>))))"

definition cause_list_request ::
  "string \<Rightarrow> string \<Rightarrow> string \<Rightarrow> string option \<Rightarrow> string \<Rightarrow> (string \<times> string) list" where
  "cause_list_request st dist cplx court dt =
     [(''state_code'', st), (''dist_code'', dist), (''court_complex_code'', cplx), (''date'', dt)]
       @ opt_field ''court_code'' court"

definition fetch_cause_list ::
  "session \<Rightarrow> datetime \<Rightarrow> string \<Rightarrow> string \<Rightarrow> string \<Rightarrow> string option \<Rightarrow> string \<Rightarrow> cause_list" where
  "fetch_cause_list sess now st dist cplx court dt =
     (case http_post sess (base_url @ ''/ajax/get_cause_list.php'')
             (cause_list_request st dist cplx court dt) of
        Inl e \<Rightarrow> \<lparr>total_cases = None, cases = [], metadata = None, error = Some (str_of e)\<rparr>
      | Inr resp \<Rightarrow>
          (parse_cause_list (soup resp))
            \<lparr>metadata := Some \<lparr>state_code = st, district_code = dist, court_complex_code = cplx,
                                court_code = court, date = dt, fetched_at = isoformat now\<rparr>\<rparr>)"

definition pdf_path :: "string \<Rightarrow> string \<Rightarrow> string \<Rightarrow> string \<Rightarrow> string" where
  "pdf_path st dist cplx dt =
     ''downloads/'' @ ''cause_list_'' @ st @ ''_'' @ dist @ ''_'' @ cplx @ ''_'' @
       filter (\<lambda>c. c \<noteq> CHR ''-'') dt @ ''.pdf''"

text \<open>
  \<open>download_cause_list_pdf\<close> returns the path of the file it wrote, or \<open>None\<close>, and the
  file system after the call.
\<close>

definition download_cause_list_pdf ::
  "session \<Rightarrow> 'fs os_ops \<Rightarrow> 'fs \<Rightarrow> string \<Rightarrow> string \<Rightarrow> string \<Rightarrow> string option \<Rightarrow> string
     \<Rightarrow> string option \<times> 'fs" where
  "download_cause_list_pdf sess os fs st dist cplx court dt =
     (case http_post sess (base_url @ ''/ajax/download_cause_list_pdf.php'')
             (cause_list_request st dist cplx court dt) of
        Inl e \<Rightarrow> (None, fs)
      | Inr resp \<Rightarrow>
          (if status_code resp = 200 \<and> content_type resp = Some ''application/pdf'' then
             (case os_makedirs os fs ''downloads'' of
                (Some e, fs1) \<Rightarrow> (None, fs1)
              | (None, fs1) \<Rightarrow>
                  (let filepath = pdf_path st dist cplx dt
                   in case os_write os fs1 filepath (content resp) of
                        (Some e, fs2) \<Rightarrow> (None, fs2)
                      | (None, fs2) \<Rightarrow> (Some filepath, fs2)))
           else (None, fs)))"

section \<open>What the specification calls the entries\<close>

text \<open>
  The specification describes the results by filtering and mapping; the source builds them
  in loops. These definitions follow the specification's words and are compared with the
  loops below.
\<close>

definition valid_option :: "node \<Rightarrow> bool" where
  "valid_option opt =
     (strip (attr_get opt ''value'' '''') \<noteq> [] \<and> strip (attr_get opt ''value'' '''') \<noteq> ''0'')"

definition option_entry :: "node \<Rightarrow> location" where
  "option_entry opt =
     \<lparr>code = strip (attr_get opt ''value'' ''''), name = strip (get_text opt)\<rparr>"

definition state_entries :: "node \<Rightarrow> location list" where
  "state_entries doc =
     (case state_select doc of
        None \<Rightarrow> []
      | Some sel \<Rightarrow> map option_entry (filter valid_option (bs_find_all ''option'' sel)))"

definition entry_of_cells :: "node list \<Rightarrow> cause_entry" where
  "entry_of_cells cells =
     \<lparr>serial_number = strip (get_text (cells ! 0)),
      case_number = strip (get_text (cells ! 1)),
      parties = strip (get_text (cells ! 2)),
      advocate = strip (get_text (cells ! 3)),
      purpose = (if 5 \<le> length cells then strip (get_text (cells ! 4)) else [])\<rparr>"

definition data_rows :: "node \<Rightarrow> node list list" where
  "data_rows doc =
     (case bs_find ''table'' doc of
        None \<Rightarrow> []
      | Some table \<Rightarrow>
          filter (\<lambda>cells. 4 \<le> length cells)
            (map (bs_find_all ''td'') (drop 1 (bs_find_all ''tr'' table))))"

section \<open>Concrete inputs\<close>

definition const_session :: "response \<Rightarrow> session" where
  "const_session resp = \<lparr>http_get = (\<lambda>u. Inr resp), http_post = (\<lambda>u d. Inr resp)\<rparr>"

definition failing_session :: "py_exception \<Rightarrow> session" where
  "failing_session e = \<lparr>http_get = (\<lambda>u. Inl e), http_post = (\<lambda>u d. Inl e)\<rparr>"

definition html_response :: "nat \<Rightarrow> node \<Rightarrow> response" where
  "html_response st doc =
     \<lparr>status_code = st, content_type = Some ''text/html'', soup = doc, content = []\<rparr>"

definition document :: "node list \<Rightarrow> node" where
  "document ns = Element ''[document]'' [] ns"

definition option_tag :: "string \<Rightarrow> string \<Rightarrow> node" where
  "option_tag v t = Element ''option'' [(''value'', v)] [Text t]"

definition td :: "string \<Rightarrow> node" where
  "td s = Element ''td'' [] [Text s]"

definition tr :: "node list \<Rightarrow> node" where
  "tr cells = Element ''tr'' [] cells"

definition options_doc :: node where
  "options_doc = document
     [option_tag ''0'' ''Select'', option_tag '' 7 '' '' Pune '', option_tag [] ''x'',
      Element ''option'' [] [Text ''no value''], option_tag ''12'' ''Thane'', option_tag ''0'' ''z'']"

definition stray_option_doc :: node where
  "stray_option_doc = document [option_tag ''5'' ''Goa'']"

definition states_doc :: node where
  "states_doc = document
     [Element ''select'' [(''id'', ''other'')] [option_tag ''99'' ''Elsewhere''],
      Element ''select'' [(''name'', ''state_code'')]
        [option_tag ''0'' ''Select State'', option_tag ''24'' '' Kerala '', option_tag ''3'' ''Goa'']]"

definition cause_doc :: node where
  "cause_doc = document
     [Element ''table'' []
        [tr [Element ''th'' [] [Text ''Sr'']],
         tr [td ''1'', td '' CS/1/2024 '', td ''A vs B'', td ''Adv X'', td ''Hearing''],
         tr [td ''footer'', td ''x'', td ''y''],
         tr [td ''2'', td ''CS/2/2024'', td ''C vs D'', td ''Adv Y'']],
      Element ''table'' [] [tr [], tr [td ''9'', td ''9'', td ''9'', td ''9'']]]"

section \<open>What the specification calls a hearing-date row\<close>

definition row_label :: "node \<Rightarrow> string" where
  "row_label row = lower (strip (get_text (bs_find_all ''td'' row ! 0)))"

definition row_value :: "node \<Rightarrow> string" where
  "row_value row = strip (get_text (bs_find_all ''td'' row ! 1))"

text \<open>A row with at least two cells whose label contains \<open>hearing date\<close> or \<open>next date\<close>.\<close>

definition is_hearing_row :: "node \<Rightarrow> bool" where
  "is_hearing_row row =
     (2 \<le> length (bs_find_all ''td'' row) \<and> is_hearing_label (row_label row))"

text \<open>Such a row whose value parses, as day-month-year, to the date \<open>d\<close>.\<close>

definition dated_row :: "py_date \<Rightarrow> node \<Rightarrow> bool" where
  "dated_row d row = (is_hearing_row row \<and> strptime_dmy (row_value row) = Some d)"

section \<open>Concrete case results\<close>

definition clock :: "nat \<Rightarrow> nat \<Rightarrow> nat \<Rightarrow> nat \<Rightarrow> nat \<Rightarrow> datetime" where
  "clock y m d h mi =
     \<lparr>dt_date = \<lparr>year = y, month = m, day = d\<rparr>, hour = h, minute = mi, second = 0,
      microsecond = 0\<rparr>"

definition today_doc :: node where
  "today_doc = document
     [Element ''table'' []
        [tr [td ''Court Name'', td ''District Court''],
         tr [td '' Next Date of Hearing '', td '' 04-11-2026 ''],
         tr [td ''spacer'']]]"

definition both_days_doc :: node where
  "both_days_doc = document
     [Element ''table'' []
        [tr [td ''Last Hearing Date'', td ''04-11-2026''],
         tr [td ''Next Date'', td ''05-11-2026'']]]"

definition unparsed_row :: node where
  "unparsed_row = tr [td ''Next Hearing Date'', td ''next Monday'']"

definition status_row :: node where
  "status_row = tr [td ''Case Status'', td ''Pending'']"

definition unparsed_doc :: node where
  "unparsed_doc = document [Element ''table'' [] [unparsed_row, status_row]]"

definition nov :: "nat \<Rightarrow> py_date" where
  "nov d = \<lparr>year = 2026, month = 11, day = d\<rparr>"

section \<open>What the specification calls status and retrieval time\<close>

text \<open>The same session with the status code of every response replaced.\<close>

definition set_status :: "nat \<Rightarrow> session \<Rightarrow> session" where
  "set_status c sess =
     \<lparr>http_get = (\<lambda>u. map_sum id (\<lambda>r. r\<lparr>status_code := c\<rparr>) (http_get sess u)),
      http_post = (\<lambda>u d. map_sum id (\<lambda>r. r\<lparr>status_code := c\<rparr>) (http_post sess u d))\<rparr>"

text \<open>A cause list with the retrieval time of its metadata blanked.\<close>

definition without_fetched_at :: "cause_list \<Rightarrow> cause_list" where
  "without_fetched_at cl =
     cl\<lparr>metadata := map_option (\<lambda>m. m\<lparr>fetched_at := []\<rparr>) (metadata cl)\<rparr>"

text \<open>A case result with its three date flags cleared.\<close>

definition unflag :: "case_result \<Rightarrow> case_result" where
  "unflag r = r\<lparr>found := False, listed_today := False, listed_tomorrow := False\<rparr>"

section \<open>Concrete responses and a concrete file system\<close>

definition pdf_response :: "nat \<Rightarrow> string \<Rightarrow> response" where
  "pdf_response st bytes =
     \<lparr>status_code = st, content_type = Some ''application/pdf'', soup = document [],
      content = bytes\<rparr>"

text \<open>
  A small file system for the concrete calls below: the directories and the files that
  exist, by their paths relative to the working directory, and whether the file system
  is read-only. \<open>makedirs\<close> is \<open>os.makedirs(p, exist_ok=True)\<close> for a path of one
  component. \<open>write_file\<close> is the \<open>with open(path, 'wb')\<close> block: it raises on a path with
  a null character, on a directory, when the directory part of the path does not exist,
  on a file name longer than 255 bytes and on a read-only file system.
\<close>

record filesystem =
  dirs :: "string list"
  files :: "(string \<times> string) list"
  read_only :: bool

definition dir_name :: "string \<Rightarrow> string" where
  "dir_name path = rev (drop 1 (dropWhile (\<lambda>c. c \<noteq> CHR ''/'') (rev path)))"

definition base_name :: "string \<Rightarrow> string" where
  "base_name path = rev (takeWhile (\<lambda>c. c \<noteq> CHR ''/'') (rev path))"

definition utf8_length :: "string \<Rightarrow> nat" where
  "utf8_length s = sum_list (map (\<lambda>c. if (of_char c :: nat) < 128 then 1 else 2) s)"

definition makedirs :: "filesystem \<Rightarrow> string \<Rightarrow> py_exception option \<times> filesystem" where
  "makedirs fs p =
     (if p \<in> set (dirs fs) then (None, fs)
      else if map_of (files fs) p \<noteq> None then (Some (FileExistsError p), fs)
      else if read_only fs then (Some (OSError ''Read-only file system''), fs)
      else (None, fs\<lparr>dirs := p # dirs fs\<rparr>))"

definition write_file :: "filesystem \<Rightarrow> string \<Rightarrow> string \<Rightarrow> py_exception option \<times> filesystem" where
  "write_file fs path bytes =
     (if CHR 0x00 \<in> set path then (Some (ValueError ''embedded null byte''), fs)
      else if path \<in> set (dirs fs) \<or> base_name path = [] then (Some (IsADirectoryError path), fs)
      else if dir_name path \<noteq> [] \<and> dir_name path \<notin> set (dirs fs)
        then (Some (FileNotFoundError path), fs)
      else if 255 < utf8_length (base_name path) then (Some (OSError ''File name too long''), fs)
      else if read_only fs then (Some (OSError ''Read-only file system''), fs)
      else (None, fs\<lparr>files := AList.update path bytes (files fs)\<rparr>))"

definition local_os :: "filesystem os_ops" where
  "local_os = \<lparr>os_makedirs = makedirs, os_write = write_file\<rparr>"

definition empty_fs :: filesystem where
  "empty_fs = \<lparr>dirs = [], files = [], read_only = False\<rparr>"

section \<open>Option extraction and the fallback list of states\<close>

lemmas doc_defs = document_def td_def tr_def option_tag_def bs_find_all_def bs_find_def
  bs_find_attr_def attr_get_def strip_def py_isspace_def

lemma option_loop_acc:
  "option_loop opts acc = acc @ map option_entry (filter valid_option opts)"
  by (induction opts arbitrary: acc) (simp_all add: valid_option_def option_entry_def Let_def)



text \<open>
  C5, as the source has it. The fallback list has ten entries with the codes 1 to 10.
  \<open>fetch_states\<close> reads the options of the select element whose id, or else whose name, is
  \<open>state_code\<close>: it returns the entries extracted from that element when there is at least
  one, and the fallback list, whole and alone, when the request raises, when there is no
  such element or when the element has no valid option.
\<close>

theorem fetch_states_fallback:
  "map (\<lambda>s. (code s, name s)) get_default_states =
     [(''1'', ''Delhi''), (''2'', ''Maharashtra''), (''3'', ''Karnataka''), (''4'', ''Tamil Nadu''),
      (''5'', ''Gujarat''), (''6'', ''Rajasthan''), (''7'', ''West Bengal''),
      (''8'', ''Uttar Pradesh''), (''9'', ''Madhya Pradesh''), (''10'', ''Punjab'')]
   \<and> fetch_states sess =
       (case http_get sess (base_url @ ''/?p=cause_list/'') of
          Inl e \<Rightarrow> get_default_states
        | Inr resp \<Rightarrow>
            (if state_entries (soup resp) = [] then get_default_states
             else state_entries (soup resp)))"
  by (simp add: get_default_states_def fetch_states_def state_entries_def option_loop_acc
      split: sum.splits option.splits)

theorem fetch_states_fallback_witness:
  "fetch_states (const_session (html_response 200 states_doc)) =
     [\<lparr>code = ''24'', name = ''Kerala''\<rparr>, \<lparr>code = ''3'', name = ''Goa''\<rparr>]
   \<and> fetch_states (const_session (html_response 200 (document []))) = get_default_states
   \<and> length get_default_states = 10"
  using fetch_states_fallback [of "const_session (html_response 200 states_doc)"]
        fetch_states_fallback [of "const_session (html_response 200 (document []))"]
  by (simp add: states_doc_def doc_defs valid_option_def option_entry_def const_session_def
      html_response_def state_entries_def state_select_def or_else_def get_default_states_def)

text \<open>
  C5, as the specification states it, fails: a response that contains a valid option but no select
  element named \<open>state_code\<close> gets the fallback list, not the option.
\<close>

theorem fetch_states_stray_option:
  "filter valid_option (bs_find_all ''option'' stray_option_doc) = [option_tag ''5'' ''Goa'']
   \<and> fetch_states (const_session (html_response 200 stray_option_doc)) = get_default_states
   \<and> fetch_states (const_session (html_response 200 stray_option_doc))
       \<noteq> [\<lparr>code = ''5'', name = ''Goa''\<rparr>]"
  by (simp add: stray_option_doc_def doc_defs valid_option_def fetch_states_def
      const_session_def html_response_def state_select_def or_else_def get_default_states_def)

section \<open>The cause list\<close>

lemma make_case_entry: "4 \<le> length cells \<Longrightarrow> make_case cells = entry_of_cells cells"
  by (simp add: make_case_def entry_of_cells_def)

lemma cause_rows_acc:
  "cause_rows rows acc =
     acc @ map entry_of_cells (filter (\<lambda>cells. 4 \<le> length cells) (map (bs_find_all ''td'') rows))"
  by (induction rows arbitrary: acc) (simp_all add: Let_def make_case_entry)

lemma parse_cause_list_rows:
  "parse_cause_list doc =
     \<lparr>total_cases = Some (length (data_rows doc)), cases = map entry_of_cells (data_rows doc),
      metadata = None, error = None\<rparr>"
  by (simp add: parse_cause_list_def data_rows_def cause_rows_acc split: option.splits)

text \<open>
  C6. \<open>_parse_cause_list\<close> takes the rows of the first table after its first row, keeps
  the rows with at least four cells and builds one entry from each, in row order: serial
  number, case number, parties and advocate from cells 0 to 3, purpose from cell 4 when
  there is a fifth cell and empty otherwise. \<open>total_cases\<close> is the number of entries, and
  a document without a table gives no entry and \<open>total_cases\<close> 0.
\<close>

theorem cause_list_entries:
  "cases (parse_cause_list doc) = map entry_of_cells (data_rows doc)
   \<and> total_cases (parse_cause_list doc) = Some (length (cases (parse_cause_list doc)))
   \<and> (bs_find ''table'' doc = None \<longrightarrow>
        cases (parse_cause_list doc) = [] \<and> total_cases (parse_cause_list doc) = Some 0)"
  by (simp add: parse_cause_list_rows data_rows_def)

theorem cause_list_entries_witness:
  "cases (parse_cause_list cause_doc) =
     [\<lparr>serial_number = ''1'', case_number = ''CS/1/2024'', parties = ''A vs B'',
       advocate = ''Adv X'', purpose = ''Hearing''\<rparr>,
      \<lparr>serial_number = ''2'', case_number = ''CS/2/2024'', parties = ''C vs D'',
       advocate = ''Adv Y'', purpose = []\<rparr>]
   \<and> total_cases (parse_cause_list cause_doc) = Some 2
   \<and> bs_find ''table'' (document []) = None
   \<and> cases (parse_cause_list (document [])) = []
   \<and> total_cases (parse_cause_list (document [])) = Some 0"
  using cause_list_entries [of cause_doc] cause_list_entries [of "document []"]
  by (simp add: cause_doc_def doc_defs data_rows_def entry_of_cells_def)

text \<open>
  C10. Every entry of a cause list comes from a row with at least four cells, so its
  advocate is the trimmed text of cell 3 of that row and the empty default of the
  conditional in \<open>make_case\<close> is never taken; the purpose is the empty default exactly for
  the rows with four cells.
\<close>

theorem advocate_from_cell_3:
  "map advocate (cases (parse_cause_list doc)) =
     map (\<lambda>cells. strip (get_text (cells ! 3))) (data_rows doc)
   \<and> map purpose (cases (parse_cause_list doc)) =
     map (\<lambda>cells. if length cells = 4 then [] else strip (get_text (cells ! 4))) (data_rows doc)
   \<and> list_all (\<lambda>cells. 4 \<le> length cells) (data_rows doc)"
proof -
  have len: "list_all (\<lambda>cells. 4 \<le> length cells) (data_rows doc)"
    by (auto simp: data_rows_def list_all_iff split: option.splits)
  have adv: "map advocate (map entry_of_cells (data_rows doc)) =
      map (\<lambda>cells. strip (get_text (cells ! 3))) (data_rows doc)"
    by (simp add: entry_of_cells_def)
  have pur: "map purpose (map entry_of_cells (data_rows doc)) =
      map (\<lambda>cells. if length cells = 4 then [] else strip (get_text (cells ! 4))) (data_rows doc)"
    using len by (auto simp: entry_of_cells_def list_all_iff)
  show ?thesis using len adv pur by (simp add: parse_cause_list_rows)
qed

theorem advocate_from_cell_3_witness:
  "map advocate (cases (parse_cause_list cause_doc)) = [''Adv X'', ''Adv Y'']
   \<and> map purpose (cases (parse_cause_list cause_doc)) = [''Hearing'', []]
   \<and> map length (data_rows cause_doc) = [5, 4]"
  using advocate_from_cell_3 [of cause_doc]
  by (simp add: cause_doc_def doc_defs data_rows_def)

section \<open>The case result\<close>

lemmas row_defs = dated_row_def is_hearing_row_def row_label_def row_value_def

lemma add_one_day_neq: "add_one_day d = Some d' \<Longrightarrow> d' \<noteq> d"
  by (cases d) (auto simp: add_one_day_def split: if_splits)

text \<open>What one row does to the three flags and to the hearing date.\<close>

lemma case_row_found:
  "found (case_row t tm row r) = (found r \<or> dated_row t row \<or> dated_row tm row)"
  by (auto simp: case_row_def classify_date_def Let_def row_defs split: option.splits)

lemma case_row_today:
  "listed_today (case_row t tm row r) = (listed_today r \<or> dated_row t row)"
  by (auto simp: case_row_def classify_date_def Let_def row_defs split: option.splits)

lemma case_row_tomorrow:
  "listed_tomorrow (case_row t tm row r) = (listed_tomorrow r \<or> (dated_row tm row \<and> tm \<noteq> t))"
  by (auto simp: case_row_def classify_date_def Let_def row_defs split: option.splits)

lemma case_row_next:
  "next_hearing_date (case_row t tm row r) =
     (if is_hearing_row row then Some (row_value row) else next_hearing_date r)"
  by (auto simp: case_row_def classify_date_def Let_def row_defs split: option.splits)

text \<open>The same for the whole loop, from any starting result.\<close>

lemma case_rows_found:
  "found (case_rows t tm rows r) =
     (found r \<or> list_ex (dated_row t) rows \<or> list_ex (dated_row tm) rows)"
  by (induction rows arbitrary: r) (auto simp: case_row_found)

lemma case_rows_today:
  "listed_today (case_rows t tm rows r) = (listed_today r \<or> list_ex (dated_row t) rows)"
  by (induction rows arbitrary: r) (auto simp: case_row_today)

lemma case_rows_tomorrow:
  "listed_tomorrow (case_rows t tm rows r) =
     (listed_tomorrow r \<or> (list_ex (dated_row tm) rows \<and> tm \<noteq> t))"
  by (induction rows arbitrary: r) (auto simp: case_row_tomorrow)

lemma case_rows_next:
  "next_hearing_date (case_rows t tm rows r) =
     (if list_ex is_hearing_row rows then Some (row_value (last (filter is_hearing_row rows)))
      else next_hearing_date r)"
  by (induction rows arbitrary: r) (auto simp: case_row_next list_ex_iff filter_empty_conv)

lemma two_in_filter:
  assumes "x \<in> set xs" "y \<in> set xs" "x \<noteq> y" "P x" "P y"
  shows "2 \<le> length (filter P xs)"
proof -
  have "{x, y} \<subseteq> set (filter P xs)" using assms by simp
  then have "card {x, y} \<le> card (set (filter P xs))" by (intro card_mono) simp_all
  also have "\<dots> \<le> length (filter P xs)" by (rule card_length)
  finally show ?thesis using assms(3) by simp
qed

text \<open>
  C1. Whenever the day after the evaluation date exists, \<open>_parse_case_result\<close> returns a
  result, and its \<open>found\<close> is true if and only if some row with at least two cells, whose
  lowercased label contains \<open>hearing date\<close> or \<open>next date\<close>, has a value that parses as
  day-month-year to the evaluation date or to the day after it.
\<close>

theorem found_iff_hearing_date:
  assumes "add_one_day (dt_date now) = Some tomorrow"
  shows "\<exists>r. parse_case_result now doc cid = Inr r \<and>
           found r = (list_ex (dated_row (dt_date now)) (bs_find_all ''tr'' doc)
                      \<or> list_ex (dated_row tomorrow) (bs_find_all ''tr'' doc))"
  using assms by (simp add: parse_case_result_def case_rows_found initial_result_def)

theorem found_iff_hearing_date_witness:
  "add_one_day (dt_date (clock 2026 11 4 10 30)) = Some \<lparr>year = 2026, month = 11, day = 5\<rparr>
   \<and> list_ex (dated_row (dt_date (clock 2026 11 4 10 30))) (bs_find_all ''tr'' today_doc)
   \<and> (\<exists>r. parse_case_result (clock 2026 11 4 10 30) today_doc ''X'' = Inr r \<and> found r)
   \<and> (\<exists>r. parse_case_result (clock 2026 11 6 10 30) today_doc ''X'' = Inr r \<and> \<not> found r)"
proof -
  have a: "add_one_day (dt_date (clock 2026 11 4 10 30)) = Some \<lparr>year = 2026, month = 11, day = 5\<rparr>"
    by code_simp
  have b: "add_one_day (dt_date (clock 2026 11 6 10 30)) = Some \<lparr>year = 2026, month = 11, day = 7\<rparr>"
    by code_simp
  have c: "list_ex (dated_row (dt_date (clock 2026 11 4 10 30))) (bs_find_all ''tr'' today_doc)"
    by code_simp
  have d: "\<not> list_ex (dated_row (dt_date (clock 2026 11 6 10 30))) (bs_find_all ''tr'' today_doc)"
    by code_simp
  have e: "\<not> list_ex (dated_row \<lparr>year = 2026, month = 11, day = 7\<rparr>) (bs_find_all ''tr'' today_doc)"
    by code_simp
  show ?thesis
    using found_iff_hearing_date [OF a, of today_doc "''X''"]
          found_iff_hearing_date [OF b, of today_doc "''X''"] a c d e
    by simp
qed

text \<open>
  C2, as the source has it. \<open>listed_today\<close> is true exactly when some hearing-date row
  carries the evaluation date, \<open>listed_tomorrow\<close> exactly when some hearing-date row
  carries the day after, and \<open>found\<close> is their disjunction, so each flag implies \<open>found\<close>.
  One row sets at most one of the two flags: with at most one hearing-date row they are
  never both true.
\<close>

theorem flags_imply_found:
  assumes "add_one_day (dt_date now) = Some tomorrow"
  shows "\<exists>r. parse_case_result now doc cid = Inr r
           \<and> listed_today r = list_ex (dated_row (dt_date now)) (bs_find_all ''tr'' doc)
           \<and> listed_tomorrow r = list_ex (dated_row tomorrow) (bs_find_all ''tr'' doc)
           \<and> found r = (listed_today r \<or> listed_tomorrow r)
           \<and> (length (filter is_hearing_row (bs_find_all ''tr'' doc)) \<le> 1
                \<longrightarrow> \<not> (listed_today r \<and> listed_tomorrow r))"
proof -
  let ?t = "dt_date now" and ?rows = "bs_find_all ''tr'' doc"
  let ?r = "case_rows ?t tomorrow ?rows (initial_result cid)"
  have neq: "tomorrow \<noteq> ?t" using assms by (rule add_one_day_neq)
  have ret: "parse_case_result now doc cid = Inr ?r"
    using assms by (simp add: parse_case_result_def)
  have td: "listed_today ?r = list_ex (dated_row ?t) ?rows"
    by (simp add: case_rows_today initial_result_def)
  have tm: "listed_tomorrow ?r = list_ex (dated_row tomorrow) ?rows"
    using neq by (simp add: case_rows_tomorrow initial_result_def)
  have fd: "found ?r = (listed_today ?r \<or> listed_tomorrow ?r)"
    unfolding td tm by (simp add: case_rows_found initial_result_def)
  have excl: "\<not> (listed_today ?r \<and> listed_tomorrow ?r)"
    if one: "length (filter is_hearing_row ?rows) \<le> 1"
  proof
    assume "listed_today ?r \<and> listed_tomorrow ?r"
    then obtain x y where x: "x \<in> set ?rows" "dated_row ?t x"
      and y: "y \<in> set ?rows" "dated_row tomorrow y"
      unfolding td tm list_ex_iff by blast
    have "x \<noteq> y" using x(2) y(2) neq by (auto simp: dated_row_def)
    then have "2 \<le> length (filter is_hearing_row ?rows)"
      using x y by (intro two_in_filter [of x _ y]) (simp_all add: dated_row_def)
    then show False using one by simp
  qed
  show ?thesis using ret td tm fd excl by blast
qed

theorem flags_imply_found_witness:
  "add_one_day (dt_date (clock 2026 11 4 10 30)) = Some \<lparr>year = 2026, month = 11, day = 5\<rparr>
   \<and> length (filter is_hearing_row (bs_find_all ''tr'' today_doc)) = 1
   \<and> (\<exists>r. parse_case_result (clock 2026 11 4 10 30) today_doc ''X'' = Inr r
          \<and> found r \<and> listed_today r \<and> \<not> listed_tomorrow r)"
proof -
  have a: "add_one_day (dt_date (clock 2026 11 4 10 30)) = Some \<lparr>year = 2026, month = 11, day = 5\<rparr>"
    by code_simp
  have n: "length (filter is_hearing_row (bs_find_all ''tr'' today_doc)) = 1"
    by code_simp
  have c: "list_ex (dated_row (dt_date (clock 2026 11 4 10 30))) (bs_find_all ''tr'' today_doc)"
    by code_simp
  show ?thesis
    using flags_imply_found [OF a, of today_doc "''X''"] a n c by auto
qed

text \<open>
  C2, as the specification states it, fails: with one hearing-date row carrying the evaluation
  date and another carrying the day after, both flags are true.
\<close>

theorem both_flags_set:
  "parse_case_result (clock 2026 11 4 10 30) both_days_doc ''X'' =
     Inr \<lparr>case_id = ''X'', found = True, listed_today = True, listed_tomorrow = True,
          case_result.serial_number = None, court_name = None,
          next_hearing_date = Some ''05-11-2026'', case_status = None,
          details = [(''last hearing date'', ''04-11-2026''), (''next date'', ''05-11-2026'')]\<rparr>"
  by code_simp



text \<open>The row loop changes the fields other than the three flags without reading the dates.\<close>

lemma unflag_classify: "unflag (classify_date t tm v r) = unflag r"
  by (simp add: unflag_def classify_date_def split: option.splits)

lemma unflag_fields:
  "unflag r = unflag r' \<longleftrightarrow>
     case_id r = case_id r' \<and> case_result.serial_number r = case_result.serial_number r'
     \<and> court_name r = court_name r' \<and> next_hearing_date r = next_hearing_date r'
     \<and> case_status r = case_status r' \<and> details r = details r'"
  by (cases r, cases r') (auto simp: unflag_def)

lemma classify_fields:
  "case_id (classify_date t tm v r) = case_id r"
  "case_result.serial_number (classify_date t tm v r) = case_result.serial_number r"
  "court_name (classify_date t tm v r) = court_name r"
  "next_hearing_date (classify_date t tm v r) = next_hearing_date r"
  "case_status (classify_date t tm v r) = case_status r"
  "details (classify_date t tm v r) = details r"
  by (simp_all add: classify_date_def split: option.splits)

lemma case_row_unflag:
  assumes "unflag r = unflag r'"
  shows "unflag (case_row t tm row r) = unflag (case_row t' tm' row r')"
  using assms unfolding unflag_fields
  by (simp add: case_row_def Let_def classify_fields)

lemma case_rows_unflag:
  "unflag r = unflag r' \<Longrightarrow> unflag (case_rows t tm rows r) = unflag (case_rows t' tm' rows r')"
proof (induction rows arbitrary: r r')
  case Nil
  then show ?case by simp
next
  case (Cons row rows)
  from Cons.prems have "unflag (case_row t tm row r) = unflag (case_row t' tm' row r')"
    by (rule case_row_unflag)
  then show ?case by (simp add: Cons.IH)
qed

text \<open>
  C9, as the source has it. \<open>_parse_case_result\<close> reads the clock itself: its result is
  determined by the document, the case id and the calendar date of the clock when it
  runs. Two calls on the same document on the same day return the same result, and two
  calls on any two days return results that differ at most in \<open>found\<close>, \<open>listed_today\<close>
  and \<open>listed_tomorrow\<close>. The cause list that \<open>fetch_cause_list\<close> returns for a response
  is what \<open>_parse_cause_list\<close> returns for its document, a function of the document alone,
  with metadata added; the clock enters it through \<open>fetched_at\<close> only.
\<close>

theorem clock_enters_flags_only:
  "(dt_date now = dt_date now' \<longrightarrow>
      parse_case_result now doc cid = parse_case_result now' doc cid)
   \<and> (parse_case_result now doc cid = Inr r \<and> parse_case_result now' doc cid = Inr r' \<longrightarrow>
        unflag r = unflag r')
   \<and> without_fetched_at (fetch_cause_list sess now st dist cplx court dt)
       = without_fetched_at (fetch_cause_list sess now' st dist cplx court dt)
   \<and> (http_post sess (base_url @ ''/ajax/get_cause_list.php'')
          (cause_list_request st dist cplx court dt) = Inr resp \<longrightarrow>
        (fetch_cause_list sess now st dist cplx court dt)\<lparr>metadata := None\<rparr>
          = parse_cause_list (soup resp)
        \<and> map_option fetched_at (metadata (fetch_cause_list sess now st dist cplx court dt))
          = Some (isoformat now))"
proof -
  have same: "parse_case_result now doc cid = parse_case_result now' doc cid"
    if "dt_date now = dt_date now'"
    using that by (simp add: parse_case_result_def)
  have flags: "unflag r = unflag r'"
    if left: "parse_case_result now doc cid = Inr r"
      and right: "parse_case_result now' doc cid = Inr r'"
  proof -
    obtain tm where tm: "add_one_day (dt_date now) = Some tm"
      and r: "r = case_rows (dt_date now) tm (bs_find_all ''tr'' doc) (initial_result cid)"
      using left by (auto simp: parse_case_result_def Let_def split: option.splits)
    obtain tm' where tm': "add_one_day (dt_date now') = Some tm'"
      and r': "r' = case_rows (dt_date now') tm' (bs_find_all ''tr'' doc) (initial_result cid)"
      using right by (auto simp: parse_case_result_def Let_def split: option.splits)
    show ?thesis unfolding r r' by (rule case_rows_unflag) simp
  qed
  have meta: "without_fetched_at (fetch_cause_list sess now st dist cplx court dt)
      = without_fetched_at (fetch_cause_list sess now' st dist cplx court dt)"
    by (simp add: fetch_cause_list_def without_fetched_at_def split: sum.splits)
  have parsed: "(fetch_cause_list sess now st dist cplx court dt)\<lparr>metadata := None\<rparr>
        = parse_cause_list (soup resp)
      \<and> map_option fetched_at (metadata (fetch_cause_list sess now st dist cplx court dt))
        = Some (isoformat now)"
    if "http_post sess (base_url @ ''/ajax/get_cause_list.php'')
          (cause_list_request st dist cplx court dt) = Inr resp"
    using that by (simp add: fetch_cause_list_def parse_cause_list_rows)
  show ?thesis using same flags meta parsed by blast
qed

theorem clock_enters_flags_only_witness:
  "dt_date (clock 2026 11 4 10 30) = dt_date (clock 2026 11 4 23 59)
   \<and> clock 2026 11 4 10 30 \<noteq> clock 2026 11 4 23 59
   \<and> parse_case_result (clock 2026 11 4 10 30) today_doc ''X''
       = parse_case_result (clock 2026 11 4 23 59) today_doc ''X''
   \<and> parse_case_result (clock 2026 11 4 10 30) today_doc ''X'' =
       Inr \<lparr>case_id = ''X'', found = True, listed_today = True, listed_tomorrow = False,
            case_result.serial_number = None, court_name = Some ''District Court'',
            next_hearing_date = Some ''04-11-2026'', case_status = None,
            details = [(''court name'', ''District Court''),
                       (''next date of hearing'', ''04-11-2026'')]\<rparr>
   \<and> parse_case_result (clock 2026 11 6 10 30) today_doc ''X'' =
       Inr \<lparr>case_id = ''X'', found = False, listed_today = False, listed_tomorrow = False,
            case_result.serial_number = None, court_name = Some ''District Court'',
            next_hearing_date = Some ''04-11-2026'', case_status = None,
            details = [(''court name'', ''District Court''),
                       (''next date of hearing'', ''04-11-2026'')]\<rparr>
   \<and> unflag \<lparr>case_id = ''X'', found = True, listed_today = True, listed_tomorrow = False,
            case_result.serial_number = None, court_name = Some ''District Court'',
            next_hearing_date = Some ''04-11-2026'', case_status = None,
            details = [(''court name'', ''District Court''),
                       (''next date of hearing'', ''04-11-2026'')]\<rparr>
       = unflag \<lparr>case_id = ''X'', found = False, listed_today = False, listed_tomorrow = False,
            case_result.serial_number = None, court_name = Some ''District Court'',
            next_hearing_date = Some ''04-11-2026'', case_status = None,
            details = [(''court name'', ''District Court''),
                       (''next date of hearing'', ''04-11-2026'')]\<rparr>
   \<and> http_post (const_session (html_response 200 cause_doc)) (base_url @ ''/ajax/get_cause_list.php'')
        (cause_list_request ''1'' ''2'' ''3'' None ''04-11-2026'') = Inr (html_response 200 cause_doc)
   \<and> (fetch_cause_list (const_session (html_response 200 cause_doc)) (clock 2026 11 4 10 30)
         ''1'' ''2'' ''3'' None ''04-11-2026'')\<lparr>metadata := None\<rparr>
       = parse_cause_list (soup (html_response 200 cause_doc))
   \<and> map_option fetched_at
        (metadata (fetch_cause_list (const_session (html_response 200 cause_doc))
           (clock 2026 11 4 10 30) ''1'' ''2'' ''3'' None ''04-11-2026''))
       = Some (isoformat (clock 2026 11 4 10 30))
   \<and> isoformat (clock 2026 11 4 10 30) = ''2026-11-04T10:30:00''"
proof -
  let ?R1 = "\<lparr>case_id = ''X'', found = True, listed_today = True, listed_tomorrow = False,
            case_result.serial_number = None, court_name = Some ''District Court'',
            next_hearing_date = Some ''04-11-2026'', case_status = None,
            details = [(''court name'', ''District Court''),
                       (''next date of hearing'', ''04-11-2026'')]\<rparr>"
  let ?R3 = "\<lparr>case_id = ''X'', found = False, listed_today = False, listed_tomorrow = False,
            case_result.serial_number = None, court_name = Some ''District Court'',
            next_hearing_date = Some ''04-11-2026'', case_status = None,
            details = [(''court name'', ''District Court''),
                       (''next date of hearing'', ''04-11-2026'')]\<rparr>"
  have a: "dt_date (clock 2026 11 4 10 30) = dt_date (clock 2026 11 4 23 59)"
    by (simp add: clock_def)
  have ne: "clock 2026 11 4 10 30 \<noteq> clock 2026 11 4 23 59"
    by (simp add: clock_def)
  have b: "parse_case_result (clock 2026 11 4 10 30) today_doc ''X'' = Inr ?R1"
    by code_simp
  have c: "parse_case_result (clock 2026 11 6 10 30) today_doc ''X'' = Inr ?R3"
    by code_simp
  have d: "http_post (const_session (html_response 200 cause_doc))
        (base_url @ ''/ajax/get_cause_list.php'')
        (cause_list_request ''1'' ''2'' ''3'' None ''04-11-2026'') = Inr (html_response 200 cause_doc)"
    by (simp add: const_session_def)
  have f: "isoformat (clock 2026 11 4 10 30) = ''2026-11-04T10:30:00''"
    by code_simp
  note same = clock_enters_flags_only
    [where now = "clock 2026 11 4 10 30" and now' = "clock 2026 11 4 23 59"
       and doc = today_doc and cid = "''X''", THEN conjunct1, THEN mp, OF a]
  note other = clock_enters_flags_only
    [where now = "clock 2026 11 4 10 30" and now' = "clock 2026 11 6 10 30"
       and doc = today_doc and cid = "''X''" and r = ?R1 and r' = ?R3
       and sess = "const_session (html_response 200 cause_doc)"
       and st = "''1''" and dist = "''2''" and cplx = "''3''" and court = None
       and dt = "''04-11-2026''" and resp = "html_response 200 cause_doc"]
  note flags = other [THEN conjunct2, THEN conjunct1, THEN mp, OF conjI [OF b c]]
  note parsed = other [THEN conjunct2, THEN conjunct2, THEN conjunct2, THEN mp, OF d]
  show ?thesis
    by (intro conjI) (rule a ne same b c flags d parsed [THEN conjunct1]
        parsed [THEN conjunct2] f)+
qed

text \<open>
  C9, as the specification states it, fails: the evaluation date is not a parameter of
  \<open>_parse_case_result\<close>, and two calls on the same document on different days differ.
\<close>

theorem same_document_other_day:
  "parse_case_result (clock 2026 11 4 10 30) today_doc ''X''
     \<noteq> parse_case_result (clock 2026 11 6 10 30) today_doc ''X''"
  by code_simp

section \<open>Transport failures\<close>

lemmas op_defs = fetch_states_def fetch_districts_def fetch_court_complexes_def fetch_courts_def
  search_case_by_cnr_def search_case_by_details_def fetch_cause_list_def




section \<open>The download\<close>

text \<open>
  C3, as the source has it. \<open>download_cause_list_pdf\<close> returns a file path or \<open>None\<close>,
  never the bytes. It returns the path exactly when the request returns a response with
  status 200 whose content type is \<open>application/pdf\<close>, \<open>os.makedirs\<close> of the directory
  \<open>downloads\<close> does not raise, and the write of the bytes of the response, unchanged, to
  that path does not raise: the operation does the writing itself. When the request
  raises or the response has another status or content type, it returns \<open>None\<close> and
  calls neither; when \<open>os.makedirs\<close> or the write raises, it returns \<open>None\<close> and the file
  system is as that call left it.
\<close>

theorem download_writes_file:
  "download_cause_list_pdf sess os fs st dist cplx court dt =
     (case http_post sess (base_url @ ''/ajax/download_cause_list_pdf.php'')
             (cause_list_request st dist cplx court dt) of
        Inl e \<Rightarrow> (None, fs)
      | Inr resp \<Rightarrow>
          (if status_code resp = 200 \<and> content_type resp = Some ''application/pdf''
           then (let made = os_makedirs os fs ''downloads'';
                     written = os_write os (snd made) (pdf_path st dist cplx dt) (content resp)
                 in if fst made \<noteq> None then (None, snd made)
                    else if fst written \<noteq> None then (None, snd written)
                    else (Some (pdf_path st dist cplx dt), snd written))
           else (None, fs)))"
  by (auto simp: download_cause_list_pdf_def Let_def split: sum.splits prod.splits option.splits)

theorem download_writes_file_witness:
  "download_cause_list_pdf (const_session (pdf_response 200 ''%PDF-1.4'')) local_os empty_fs
       ''1'' ''2'' ''3'' None ''04-11-2026'' =
     (Some ''downloads/cause_list_1_2_3_04112026.pdf'',
      \<lparr>dirs = [''downloads''],
       files = [(''downloads/cause_list_1_2_3_04112026.pdf'', ''%PDF-1.4'')],
       read_only = False\<rparr>)
   \<and> download_cause_list_pdf (const_session (pdf_response 200 ''%PDF-1.4'')) local_os empty_fs
       ''1'' ''2'' ''3'' None ''04/11/2026'' =
     (None, \<lparr>dirs = [''downloads''], files = [], read_only = False\<rparr>)
   \<and> download_cause_list_pdf (const_session (pdf_response 200 ''%PDF-1.4'')) local_os
       (empty_fs\<lparr>read_only := True\<rparr>) ''1'' ''2'' ''3'' None ''04-11-2026'' =
     (None, empty_fs\<lparr>read_only := True\<rparr>)"
proof -
  have p1: "pdf_path ''1'' ''2'' ''3'' ''04-11-2026'' = ''downloads/cause_list_1_2_3_04112026.pdf''"
    by (simp add: pdf_path_def)
  have m1: "os_makedirs local_os empty_fs ''downloads''
      = (None, \<lparr>dirs = [''downloads''], files = [], read_only = False\<rparr>)"
    by code_simp
  have w1: "os_write local_os \<lparr>dirs = [''downloads''], files = [], read_only = False\<rparr>
        ''downloads/cause_list_1_2_3_04112026.pdf'' ''%PDF-1.4''
      = (None, \<lparr>dirs = [''downloads''],
                files = [(''downloads/cause_list_1_2_3_04112026.pdf'', ''%PDF-1.4'')],
                read_only = False\<rparr>)"
    by code_simp
  have p2: "pdf_path ''1'' ''2'' ''3'' ''04/11/2026'' = ''downloads/cause_list_1_2_3_04/11/2026.pdf''"
    by (simp add: pdf_path_def)
  have w2: "os_write local_os \<lparr>dirs = [''downloads''], files = [], read_only = False\<rparr>
        ''downloads/cause_list_1_2_3_04/11/2026.pdf'' ''%PDF-1.4''
      = (Some (FileNotFoundError ''downloads/cause_list_1_2_3_04/11/2026.pdf''),
         \<lparr>dirs = [''downloads''], files = [], read_only = False\<rparr>)"
    by code_simp
  have m3: "os_makedirs local_os (empty_fs\<lparr>read_only := True\<rparr>) ''downloads''
      = (Some (OSError ''Read-only file system''), empty_fs\<lparr>read_only := True\<rparr>)"
    by code_simp
  show ?thesis
    using download_writes_file [of "const_session (pdf_response 200 ''%PDF-1.4'')" local_os
        empty_fs "''1''" "''2''" "''3''" None "''04-11-2026''"]
      download_writes_file [of "const_session (pdf_response 200 ''%PDF-1.4'')" local_os
        empty_fs "''1''" "''2''" "''3''" None "''04/11/2026''"]
      download_writes_file [of "const_session (pdf_response 200 ''%PDF-1.4'')" local_os
        "empty_fs\<lparr>read_only := True\<rparr>" "''1''" "''2''" "''3''" None "''04-11-2026''"]
    by (simp add: const_session_def pdf_response_def p1 p2 m1 w1 w2 m3)
qed

text \<open>
  C3, as the specification states it, fails: on a response with status 200 and content
  type \<open>application/pdf\<close> the operation writes the file itself and returns its path, not
  the bytes; and a response with that content type and another status gives \<open>None\<close>.
\<close>

theorem download_returns_path:
  "fst (download_cause_list_pdf (const_session (pdf_response 200 ''%PDF-1.4'')) local_os empty_fs
       ''1'' ''2'' ''3'' None ''04-11-2026'') = Some ''downloads/cause_list_1_2_3_04112026.pdf''
   \<and> fst (download_cause_list_pdf (const_session (pdf_response 200 ''%PDF-1.4'')) local_os empty_fs
       ''1'' ''2'' ''3'' None ''04-11-2026'') \<noteq> Some ''%PDF-1.4''
   \<and> files (snd (download_cause_list_pdf (const_session (pdf_response 200 ''%PDF-1.4'')) local_os
       empty_fs ''1'' ''2'' ''3'' None ''04-11-2026''))
       = [(''downloads/cause_list_1_2_3_04112026.pdf'', ''%PDF-1.4'')]
   \<and> files empty_fs = []
   \<and> content_type (pdf_response 404 ''%PDF-1.4'') = Some ''application/pdf''
   \<and> download_cause_list_pdf (const_session (pdf_response 404 ''%PDF-1.4'')) local_os empty_fs
       ''1'' ''2'' ''3'' None ''04-11-2026'' = (None, empty_fs)"
  by code_simp

end
